theory Spec2Isabelle
  imports Complex_Main "HOL-Library.Char_ord" "HOL-Library.List_Lexorder" "HOL-Library.Multiset"
begin

section \<open>Data model\<close>

text \<open>
  One row of \<^verbatim>\<open>Churn_Modelling.csv\<close>, with the columns \<^verbatim>\<open>app.py\<close> reads. The
  columns \<^verbatim>\<open>IsActiveMember\<close> and \<^verbatim>\<open>Exited\<close> hold the flags 0 and 1 in the file; they
  are booleans here and \<open>flag\<close> gives the number pandas computes with. Floating point
  numbers are modelled by the reals: comparisons are exact either way, rounding of
  the arithmetic is not modelled. No column has missing values.
\<close>

record customer =
  CustomerId :: int
  Geography :: string
  Gender :: string
  Age :: int
  Balance :: real
  NumOfProducts :: int
  IsActiveMember :: bool
  Exited :: bool

definition flag :: "bool \<Rightarrow> int" where
  "flag b = (if b then 1 else 0)"

datatype py_error = ValueError | ZeroDivisionError

text \<open>
  A pandas Series is a list of (index label, value) pairs; a missing value (NaN) is
  \<open>None\<close>.
\<close>

type_synonym ('k, 'v) series = "('k \<times> 'v option) list"

text \<open>\<^verbatim>\<open>Series.unique()\<close>: the distinct values in order of first appearance.\<close>

definition unique :: "'a list \<Rightarrow> 'a list" where
  "unique xs = rev (remdups (rev xs))"

text \<open>\<^verbatim>\<open>Series.min()\<close> and \<^verbatim>\<open>Series.max()\<close>: NaN on an empty column.\<close>

definition col_min :: "'a::linorder list \<Rightarrow> 'a option" where
  "col_min xs = (case xs of [] \<Rightarrow> None | x # rest \<Rightarrow> Some (fold min rest x))"

definition col_max :: "'a::linorder list \<Rightarrow> 'a option" where
  "col_max xs = (case xs of [] \<Rightarrow> None | x # rest \<Rightarrow> Some (fold max rest x))"

text \<open>Python's \<^verbatim>\<open>int(x)\<close> on a float: truncation towards zero.\<close>

definition py_int :: "real \<Rightarrow> int" where
  "py_int x = (if 0 \<le> x then \<lfloor>x\<rfloor> else \<lceil>x\<rceil>)"

section \<open>Sidebar state and its defaults (app.py, lines 230 to 278)\<close>

record sidebar =
  france :: bool
  germany :: bool
  spain :: bool
  active_only :: bool
  show_male :: bool
  show_female :: bool
  age_range :: "int \<times> int"
  balance_range :: "int \<times> int"
  products_sel :: "int list"

text \<open>
  \<^verbatim>\<open>min_age = int(df["Age"].min())\<close> and so on; \<^verbatim>\<open>int\<close> of the NaN of an empty
  table raises \<^verbatim>\<open>ValueError\<close>.
\<close>

definition default_age_range :: "customer list \<Rightarrow> py_error + (int \<times> int)" where
  "default_age_range df =
     (case (col_min (map Age df), col_max (map Age df)) of
        (Some lo, Some hi) \<Rightarrow> Inr (lo, hi)
      | _ \<Rightarrow> Inl ValueError)"

definition default_balance_range :: "customer list \<Rightarrow> py_error + (int \<times> int)" where
  "default_balance_range df =
     (case (col_min (map Balance df), col_max (map Balance df)) of
        (Some lo, Some hi) \<Rightarrow> Inr (py_int lo, py_int hi)
      | _ \<Rightarrow> Inl ValueError)"

definition prod_options :: "customer list \<Rightarrow> int list" where
  "prod_options df = sort (unique (map NumOfProducts df))"

text \<open>Every widget of the sidebar at the value the script gives it as default.\<close>

definition default_sidebar :: "customer list \<Rightarrow> py_error + sidebar" where
  "default_sidebar df =
     (case default_age_range df of
        Inl e \<Rightarrow> Inl e
      | Inr ar \<Rightarrow>
         (case default_balance_range df of
            Inl e \<Rightarrow> Inl e
          | Inr br \<Rightarrow>
              Inr \<lparr>france = True, germany = True, spain = True, active_only = False,
                   show_male = True, show_female = True, age_range = ar,
                   balance_range = br, products_sel = prod_options df\<rparr>))"

text \<open>
  The same state with every checkbox cleared and the product multiselect emptied:
  every inclusion set empty, the sliders untouched.
\<close>

definition cleared_sidebar :: "customer list \<Rightarrow> py_error + sidebar" where
  "cleared_sidebar df =
     (case default_sidebar df of
        Inl e \<Rightarrow> Inl e
      | Inr s \<Rightarrow>
          Inr (s\<lparr>france := False, germany := False, spain := False,
                 show_male := False, show_female := False, products_sel := []\<rparr>))"

section \<open>Filter engine (app.py, lines 280 to 327)\<close>

definition selected_geographies :: "sidebar \<Rightarrow> string list" where
  "selected_geographies s =
     (if france s then [''France''] else []) @
     (if germany s then [''Germany''] else []) @
     (if spain s then [''Spain''] else [])"

definition geographies :: "sidebar \<Rightarrow> customer list \<Rightarrow> string list" where
  "geographies s df =
     (if selected_geographies s = [] then unique (map Geography df)
      else selected_geographies s)"

definition genders :: "sidebar \<Rightarrow> string list" where
  "genders s =
     (if show_male s then [''Male''] else []) @
     (if show_female s then [''Female''] else [])"

definition filter_geography :: "sidebar \<Rightarrow> customer list \<Rightarrow> customer list" where
  "filter_geography s df = filter (\<lambda>r. Geography r \<in> set (geographies s df)) df"

definition filter_active :: "sidebar \<Rightarrow> customer list \<Rightarrow> customer list" where
  "filter_active s filtered_df =
     (if active_only s then filter (\<lambda>r. flag (IsActiveMember r) = 1) filtered_df
      else filtered_df)"

definition filter_gender :: "sidebar \<Rightarrow> customer list \<Rightarrow> customer list" where
  "filter_gender s filtered_df =
     (if genders s \<noteq> [] then filter (\<lambda>r. Gender r \<in> set (genders s)) filtered_df
      else filtered_df)"

definition filter_age :: "sidebar \<Rightarrow> customer list \<Rightarrow> customer list" where
  "filter_age s filtered_df =
     (case age_range s of (min_age_sel, max_age_sel) \<Rightarrow>
        filter (\<lambda>r. min_age_sel \<le> Age r \<and> Age r \<le> max_age_sel) filtered_df)"

definition filter_balance :: "sidebar \<Rightarrow> customer list \<Rightarrow> customer list" where
  "filter_balance s filtered_df =
     (case balance_range s of (min_bal_sel, max_bal_sel) \<Rightarrow>
        filter (\<lambda>r. of_int min_bal_sel \<le> Balance r \<and> Balance r \<le> of_int max_bal_sel)
          filtered_df)"

definition filter_products :: "sidebar \<Rightarrow> customer list \<Rightarrow> customer list" where
  "filter_products s filtered_df =
     (if products_sel s \<noteq> [] then
        filter (\<lambda>r. NumOfProducts r \<in> set (products_sel s)) filtered_df
      else filtered_df)"

text \<open>The chain in the order of the script.\<close>

definition apply_filters :: "customer list \<Rightarrow> sidebar \<Rightarrow> customer list" where
  "apply_filters df s =
     filter_products s (filter_balance s (filter_age s
       (filter_gender s (filter_active s (filter_geography s df)))))"

section \<open>Key metrics (app.py, lines 329 to 332)\<close>

definition py_truediv :: "real \<Rightarrow> real \<Rightarrow> py_error + real" where
  "py_truediv a b = (if b = 0 then Inl ZeroDivisionError else Inr (a / b))"

definition total_customers :: "customer list \<Rightarrow> nat" where
  "total_customers filtered_df = length filtered_df"

definition churned_customers :: "customer list \<Rightarrow> nat" where
  "churned_customers filtered_df = length (filter Exited filtered_df)"

definition churn_rate :: "customer list \<Rightarrow> py_error + real" where
  "churn_rate filtered_df =
     (if total_customers filtered_df > 0 then
        (case py_truediv (real (churned_customers filtered_df))
                (real (total_customers filtered_df)) of
           Inl e \<Rightarrow> Inl e
         | Inr q \<Rightarrow> Inr (q * 100))
      else Inr 0)"

section \<open>Aggregation engine (app.py, lines 141 to 176)\<close>

text \<open>Mean of a 0/1 column; NaN when there is no row.\<close>

definition mean :: "bool list \<Rightarrow> real option" where
  "mean bs =
     (if bs = [] then None
      else Some (real (length (filter (\<lambda>b. b) bs)) / real (length bs)))"

text \<open>
  \<^verbatim>\<open>df.groupby(col)\<close>: one group per value that occurs, keys in ascending order
  (pandas sorts group keys by default).
\<close>

definition groupby :: "(customer \<Rightarrow> 'k::linorder) \<Rightarrow> customer list \<Rightarrow> ('k \<times> customer list) list" where
  "groupby key df =
     map (\<lambda>k. (k, filter (\<lambda>r. key r = k) df)) (sort (remdups (map key df)))"

text \<open>
  \<^verbatim>\<open>df.groupby(col, observed=True)\<close> on a categorical column: the categories in
  their declared order, only those with at least one row; rows with no category (NaN)
  belong to no group.
\<close>

definition groupby_observed ::
  "string list \<Rightarrow> (customer \<Rightarrow> string option) \<Rightarrow> customer list \<Rightarrow> (string \<times> customer list) list" where
  "groupby_observed cats key df =
     filter (\<lambda>(l, g). g \<noteq> []) (map (\<lambda>l. (l, filter (\<lambda>r. key r = Some l) df)) cats)"

definition exited_mean :: "('k \<times> customer list) list \<Rightarrow> ('k, real) series" where
  "exited_mean groups = map (\<lambda>(k, g). (k, mean (map Exited g))) groups"

definition times100 :: "('k, real) series \<Rightarrow> ('k, real) series" where
  "times100 s = map (\<lambda>(k, v). (k, map_option (\<lambda>x. x * 100) v)) s"

definition reindex :: "('k, 'v) series \<Rightarrow> 'k list \<Rightarrow> ('k, 'v) series" where
  "reindex s idx = map (\<lambda>k. (k, case map_of s k of None \<Rightarrow> None | Some v \<Rightarrow> v)) idx"

definition fillna :: "'v \<Rightarrow> ('k, 'v) series \<Rightarrow> ('k, 'v) series" where
  "fillna d s = map (\<lambda>(k, v). (k, case v of None \<Rightarrow> Some d | Some x \<Rightarrow> Some x)) s"

text \<open>
  \<^verbatim>\<open>pd.cut(x, bins, labels)\<close> with the defaults \<^verbatim>\<open>right=True\<close> and
  \<^verbatim>\<open>include_lowest=False\<close>: interval \<open>i\<close> is \<open>(bins[i], bins[i+1]]\<close>, and a value in
  no interval gets NaN. The edge \<^verbatim>\<open>np.inf\<close> is \<open>PosInf\<close>.
\<close>

datatype 'a edge = Edge 'a | PosInf

fun edge_less :: "'a::linorder edge \<Rightarrow> 'a \<Rightarrow> bool" where
  "edge_less (Edge b) x = (b < x)"
| "edge_less PosInf x = False"

fun le_edge :: "'a::linorder \<Rightarrow> 'a edge \<Rightarrow> bool" where
  "le_edge x (Edge b) = (x \<le> b)"
| "le_edge x PosInf = True"

fun cut :: "'a::linorder edge list \<Rightarrow> string list \<Rightarrow> 'a \<Rightarrow> string option" where
  "cut (lo # hi # rest) (l # ls) x =
     (if edge_less lo x \<and> le_edge x hi then Some l else cut (hi # rest) ls x)"
| "cut _ _ _ = None"

definition bins :: "int edge list" where
  "bins = [Edge 18, Edge 25, Edge 35, Edge 45, Edge 60, PosInf]"

definition labels :: "string list" where
  "labels = [''18-25'', ''26-35'', ''36-45'', ''46-60'', ''60+'']"

definition balance_bins :: "real edge list" where
  "balance_bins = [Edge 0, Edge 50000, Edge 100000, Edge 150000, Edge 200000, PosInf]"

definition balance_labels :: "string list" where
  "balance_labels = [''0-50K'', ''50-100K'', ''100-150K'', ''150-200K'', ''200K+'']"

definition AgeGroup :: "customer \<Rightarrow> string option" where
  "AgeGroup r = cut bins labels (Age r)"

definition BalanceGroup :: "customer \<Rightarrow> string option" where
  "BalanceGroup r = cut balance_bins balance_labels (Balance r)"

definition get_churn_by_age :: "customer list \<Rightarrow> (string, real) series" where
  "get_churn_by_age df = times100 (exited_mean (groupby_observed labels AgeGroup df))"

definition get_churn_by_balance :: "customer list \<Rightarrow> (string, real) series" where
  "get_churn_by_balance df =
     times100 (exited_mean (groupby_observed balance_labels BalanceGroup df))"

definition get_geo_churn :: "customer list \<Rightarrow> (string, real) series" where
  "get_geo_churn df = times100 (exited_mean (groupby Geography df))"

definition get_product_churn :: "customer list \<Rightarrow> (int, real) series" where
  "get_product_churn df = times100 (exited_mean (groupby NumOfProducts df))"

definition get_gender_churn :: "customer list \<Rightarrow> (string, real) series" where
  "get_gender_churn df = times100 (exited_mean (groupby Gender df))"

definition get_active_churn :: "customer list \<Rightarrow> (int, real) series" where
  "get_active_churn df =
     times100 (fillna 0 (reindex (exited_mean (groupby (\<lambda>r. flag (IsActiveMember r)) df)) [0, 1]))"

section \<open>Group sizes shown with the charts (app.py, lines 417, 458, 488, 559, 584)\<close>

text \<open>
  \<^verbatim>\<open>Series.value_counts()\<close>: the number of rows per value, NaN rows dropped. The
  script reindexes every result, so the order of the entries is never read.
\<close>

definition value_counts :: "'k option list \<Rightarrow> ('k, nat) series" where
  "value_counts col =
     (let vals = concat (map (\<lambda>v. case v of None \<Rightarrow> [] | Some x \<Rightarrow> [x]) col)
      in map (\<lambda>k. (k, Some (length (filter (\<lambda>x. x = k) vals)))) (unique vals))"

text \<open>\<^verbatim>\<open>astype(int)\<close> raises on NaN.\<close>

definition astype_int :: "('k, nat) series \<Rightarrow> py_error + ('k \<times> nat) list" where
  "astype_int s =
     (if list_all (\<lambda>(k, v). v \<noteq> None) s
      then Inr (map (\<lambda>(k, v). (k, case v of None \<Rightarrow> 0 | Some n \<Rightarrow> n)) s)
      else Inl ValueError)"

text \<open>
  \<^verbatim>\<open>try: col.value_counts().reindex(idx).fillna(0).astype(int)\<close>
  \<^verbatim>\<open>except Exception: pd.Series([0] * len(idx), index=idx)\<close>
\<close>

definition counts_for :: "'k option list \<Rightarrow> 'k list \<Rightarrow> ('k \<times> nat) list" where
  "counts_for col idx =
     (case astype_int (fillna 0 (reindex (value_counts col) idx)) of
        Inr s \<Rightarrow> s
      | Inl e \<Rightarrow> map (\<lambda>k. (k, 0)) idx)"

definition counts_age :: "customer list \<Rightarrow> (string \<times> nat) list" where
  "counts_age filtered_df = counts_for (map AgeGroup filtered_df) labels"

definition counts_balance :: "customer list \<Rightarrow> (string \<times> nat) list" where
  "counts_balance filtered_df = counts_for (map BalanceGroup filtered_df) balance_labels"



definition active_labels :: "string list" where
  "active_labels = [''Inactive'', ''Active'']"

text \<open>\<^verbatim>\<open>filtered_df["IsActiveMember"].map({1: "Active", 0: "Inactive"})\<close>\<close>

definition active_label :: "int \<Rightarrow> string option" where
  "active_label v = (if v = 1 then Some ''Active'' else if v = 0 then Some ''Inactive'' else None)"

definition counts_active :: "customer list \<Rightarrow> (string \<times> nat) list" where
  "counts_active filtered_df =
     counts_for (map (\<lambda>r. active_label (flag (IsActiveMember r))) filtered_df) active_labels"

section \<open>Fallback prediction (app.py, lines 664 to 681)\<close>

text \<open>\<^verbatim>\<open>str.lower()\<close> on the ASCII letters; every other byte is left as it is.\<close>

definition lower_char :: "char \<Rightarrow> char" where
  "lower_char c =
     (let n = (of_char c :: nat) in if 65 \<le> n \<and> n \<le> 90 then char_of (n + 32) else c)"

definition lower :: "string \<Rightarrow> string" where
  "lower s = map lower_char s"

definition fallback_score :: "int \<Rightarrow> real \<Rightarrow> int \<Rightarrow> bool \<Rightarrow> string \<Rightarrow> string \<Rightarrow> real" where
  "fallback_score pred_age pred_balance pred_products pred_active pred_gender pred_geo =
     0 + (of_int pred_age - 40) * 0.02
       + (pred_balance - 50000) / 200000
       + (of_int pred_products - 1) * 0.15
       + (if \<not> pred_active then 0.4 else - 0.1)
       + (if lower pred_geo = ''germany'' then 0.1 else 0)
       + (if lower pred_gender = ''male'' then 0.05 else 0)"

definition fallback_prob :: "int \<Rightarrow> real \<Rightarrow> int \<Rightarrow> bool \<Rightarrow> string \<Rightarrow> string \<Rightarrow> real" where
  "fallback_prob pred_age pred_balance pred_products pred_active pred_gender pred_geo =
     (let score = fallback_score pred_age pred_balance pred_products pred_active pred_gender pred_geo;
          prob = 1 / (1 + exp (- score))
      in max 0 (min 1 prob))"

text \<open>
  The gender and geography labels of the dataset; the script offers the labels of the
  table in the two select boxes and falls back to these lists (lines 642 and 643).
\<close>

definition gender_options :: "string list" where
  "gender_options = [''Male'', ''Female'']"

definition geography_options :: "string list" where
  "geography_options = [''France'', ''Germany'', ''Spain'']"

section \<open>The closed form of the fallback, as the specification words it\<close>

text \<open>
  The formula of the specification: start at 0, add \<open>(age - 40) * 0.02\<close>, add
  \<open>(balance - 50000) / 200000\<close>, add \<open>(num_products - 1) * 0.15\<close>, add 0.4 if inactive
  else subtract 0.1, add 0.1 for Germany, add 0.05 for Male. The two label tests are
  parameters, so that the formula can be read with either test.
\<close>

definition closed_form_score :: "int \<Rightarrow> real \<Rightarrow> int \<Rightarrow> bool \<Rightarrow> bool \<Rightarrow> bool \<Rightarrow> real" where
  "closed_form_score age balance num_products is_active is_germany is_male =
     (of_int age - 40) * 0.02 + (balance - 50000) / 200000 + (of_int num_products - 1) * 0.15
       + (if is_active then - 0.1 else 0.4)
       + (if is_germany then 0.1 else 0)
       + (if is_male then 0.05 else 0)"

definition logistic :: "real \<Rightarrow> real" where
  "logistic x = 1 / (1 + exp (- x))"

text \<open>The specification's prediction: the label tests are exact string comparisons.\<close>

definition stated_prob :: "int \<Rightarrow> real \<Rightarrow> int \<Rightarrow> bool \<Rightarrow> string \<Rightarrow> string \<Rightarrow> real" where
  "stated_prob age balance num_products is_active gender geography =
     max 0 (min 1 (logistic (closed_form_score age balance num_products is_active
        (geography = ''Germany'') (gender = ''Male''))))"

section \<open>Auxiliary notions for the statements\<close>

text \<open>A churn rate that is a number (not NaN) between 0 and 100.\<close>

definition valid_rate :: "real option \<Rightarrow> bool" where
  "valid_rate v = (case v of None \<Rightarrow> False | Some r \<Rightarrow> 0 \<le> r \<and> r \<le> 100)"

text \<open>The percentage of churned rows of a group, 0 for the empty group.\<close>

definition group_rate :: "customer list \<Rightarrow> real" where
  "group_rate g = (if g = [] then 0 else real (length (filter Exited g)) / real (length g) * 100)"

section \<open>Sample tables and sidebar states\<close>

definition sample_table :: "customer list" where
  "sample_table =
     [\<lparr>CustomerId = 1, Geography = ''France'', Gender = ''Female'', Age = 30,
       Balance = 60000, NumOfProducts = 1, IsActiveMember = True, Exited = True\<rparr>,
      \<lparr>CustomerId = 2, Geography = ''Germany'', Gender = ''Male'', Age = 45,
       Balance = 125000.5, NumOfProducts = 2, IsActiveMember = False, Exited = False\<rparr>,
      \<lparr>CustomerId = 3, Geography = ''France'', Gender = ''Female'', Age = 30,
       Balance = 40000, NumOfProducts = 1, IsActiveMember = True, Exited = False\<rparr>]"

definition only_active_table :: "customer list" where
  "only_active_table =
     [\<lparr>CustomerId = 1, Geography = ''Spain'', Gender = ''Male'', Age = 52,
       Balance = 1000, NumOfProducts = 3, IsActiveMember = True, Exited = True\<rparr>]"

text \<open>The largest balance of \<^verbatim>\<open>Churn_Modelling.csv\<close> is 250898.09.\<close>

definition top_balance_table :: "customer list" where
  "top_balance_table =
     [\<lparr>CustomerId = 1, Geography = ''Spain'', Gender = ''Male'', Age = 40,
       Balance = 250898.09, NumOfProducts = 1, IsActiveMember = True, Exited = False\<rparr>,
      \<lparr>CustomerId = 2, Geography = ''France'', Gender = ''Female'', Age = 30,
       Balance = 0, NumOfProducts = 2, IsActiveMember = False, Exited = True\<rparr>]"

definition new_adult_table :: "customer list" where
  "new_adult_table =
     [\<lparr>CustomerId = 1, Geography = ''France'', Gender = ''Female'', Age = 18,
       Balance = 0, NumOfProducts = 1, IsActiveMember = True, Exited = True\<rparr>]"

definition nothing_selected :: sidebar where
  "nothing_selected =
     \<lparr>france = False, germany = False, spain = False, active_only = False,
      show_male = False, show_female = False, age_range = (18, 92),
      balance_range = (0, 250000), products_sel = []\<rparr>"

definition inverted_ranges :: sidebar where
  "inverted_ranges =
     \<lparr>france = True, germany = True, spain = True, active_only = False,
      show_male = True, show_female = True, age_range = (50, 20),
      balance_range = (90000, 10000), products_sel = [1, 2]\<rparr>"

definition outside_ranges :: sidebar where
  "outside_ranges =
     \<lparr>france = True, germany = True, spain = True, active_only = False,
      show_male = True, show_female = True, age_range = (93, 99),
      balance_range = (300000, 400000), products_sel = [1, 2]\<rparr>"

section \<open>Filter engine: empty selections\<close>

lemma set_unique: "set (unique xs) = set xs"
  by (simp add: unique_def)

lemma filter_geography_unselected:
  "selected_geographies s = [] \<Longrightarrow> filter_geography s df = df"
  by (simp add: filter_geography_def geographies_def set_unique)

lemma filter_gender_unselected:
  "genders s = [] \<Longrightarrow> filter_gender s fd = fd"
  by (simp add: filter_gender_def)

lemma filter_products_unselected:
  "products_sel s = [] \<Longrightarrow> filter_products s fd = fd"
  by (simp add: filter_products_def)

text \<open>
  Claim C1. For each of the three categorical inclusion filters (geography, gender,
  product count), an empty selection is no constraint: the step of that dimension
  returns its input unchanged, so the whole chain gives what the chain without that step
  gives. Each dimension is stated on its own, whatever the other selections are.
\<close>

theorem empty_selection_is_no_constraint:
  "(selected_geographies s = [] \<longrightarrow>
      filter_geography s df = df \<and>
      apply_filters df s =
        filter_products s (filter_balance s (filter_age s
          (filter_gender s (filter_active s df))))) \<and>
   (genders s = [] \<longrightarrow>
      filter_gender s fd = fd \<and>
      apply_filters df s =
        filter_products s (filter_balance s (filter_age s
          (filter_active s (filter_geography s df))))) \<and>
   (products_sel s = [] \<longrightarrow>
      filter_products s fd = fd \<and>
      apply_filters df s =
        filter_balance s (filter_age s
          (filter_gender s (filter_active s (filter_geography s df)))))"
  by (simp add: apply_filters_def filter_geography_unselected filter_gender_unselected
      filter_products_unselected)

text \<open>
  With nothing selected in any of the three dimensions, and ranges that cover the sample
  table, all three rows come back: the empty selections did not exclude anything.
\<close>

theorem empty_selection_is_no_constraint_witness:
  "selected_geographies nothing_selected = [] \<and>
   genders nothing_selected = [] \<and>
   products_sel nothing_selected = [] \<and>
   apply_filters sample_table nothing_selected = sample_table \<and>
   apply_filters sample_table nothing_selected \<noteq> []"
proof -
  have geo: "selected_geographies nothing_selected = []"
    by (simp add: selected_geographies_def nothing_selected_def)
  have gen: "genders nothing_selected = []"
    by (simp add: genders_def nothing_selected_def)
  have prod: "products_sel nothing_selected = []"
    by (simp add: nothing_selected_def)
  have chain: "apply_filters sample_table nothing_selected =
      filter_products nothing_selected (filter_balance nothing_selected
        (filter_age nothing_selected (filter_gender nothing_selected
          (filter_active nothing_selected sample_table))))"
    using empty_selection_is_no_constraint[of nothing_selected sample_table sample_table] geo
    by blast
  have rest: "filter_balance nothing_selected (filter_age nothing_selected
      (filter_active nothing_selected sample_table)) = sample_table"
    by (simp add: filter_balance_def filter_age_def filter_active_def nothing_selected_def
        sample_table_def)
  have "apply_filters sample_table nothing_selected = sample_table"
    by (simp add: chain filter_products_unselected[OF prod] filter_gender_unselected[OF gen] rest)
  moreover have "sample_table \<noteq> []" by (simp add: sample_table_def)
  ultimately show ?thesis using geo gen prod by simp
qed

section \<open>Filter engine: ranges\<close>

lemma filter_steps_subset:
  "set (filter_geography s df) \<subseteq> set df"
  "set (filter_active s fd) \<subseteq> set fd"
  "set (filter_gender s fd) \<subseteq> set fd"
  "set (filter_age s fd) \<subseteq> set fd"
  "set (filter_balance s fd) \<subseteq> set fd"
  "set (filter_products s fd) \<subseteq> set fd"
  by (auto simp: filter_geography_def filter_active_def filter_gender_def filter_age_def
      filter_balance_def filter_products_def case_prod_unfold)

lemma in_filter_ageD:
  "r \<in> set (filter_age s fd) \<Longrightarrow> fst (age_range s) \<le> Age r \<and> Age r \<le> snd (age_range s)"
  by (simp add: filter_age_def case_prod_unfold)

lemma in_filter_balanceD:
  "r \<in> set (filter_balance s fd) \<Longrightarrow>
     of_int (fst (balance_range s)) \<le> Balance r \<and> Balance r \<le> of_int (snd (balance_range s))"
  by (simp add: filter_balance_def case_prod_unfold)

text \<open>A row that survives the chain is a row of the table within both ranges.\<close>

lemma in_apply_filtersD:
  assumes "r \<in> set (apply_filters df s)"
  shows "r \<in> set df"
    and "fst (age_range s) \<le> Age r" and "Age r \<le> snd (age_range s)"
    and "of_int (fst (balance_range s)) \<le> Balance r"
    and "Balance r \<le> of_int (snd (balance_range s))"
proof -
  let ?geo = "filter_geography s df"
  let ?act = "filter_active s ?geo"
  let ?gen = "filter_gender s ?act"
  let ?age = "filter_age s ?gen"
  let ?bal = "filter_balance s ?age"
  from assms have "r \<in> set (filter_products s ?bal)" by (simp add: apply_filters_def)
  then have bal: "r \<in> set ?bal" using filter_steps_subset(6) by blast
  then have age: "r \<in> set ?age" using filter_steps_subset(5) by blast
  then have "r \<in> set ?gen" using filter_steps_subset(4) by blast
  then have "r \<in> set ?act" using filter_steps_subset(3) by blast
  then have "r \<in> set ?geo" using filter_steps_subset(2) by blast
  then show "r \<in> set df" using filter_steps_subset(1) by blast
  from in_filter_ageD[OF age]
  show "fst (age_range s) \<le> Age r" and "Age r \<le> snd (age_range s)" by simp_all
  from in_filter_balanceD[OF bal]
  show "of_int (fst (balance_range s)) \<le> Balance r"
    and "Balance r \<le> of_int (snd (balance_range s))" by simp_all
qed

text \<open>
  Claim C7. The chain is a total function to a list of rows: the range comparisons of
  the script raise nothing on numeric columns (and stand inside \<^verbatim>\<open>try\<close> blocks), so
  the model has no error value. A range whose lower bound lies above its upper bound
  (age or balance) gives the empty list, and so does a range that no row of the table
  falls into.
\<close>

theorem bad_range_gives_empty:
  "(snd (age_range s) < fst (age_range s) \<longrightarrow> apply_filters df s = []) \<and>
   (snd (balance_range s) < fst (balance_range s) \<longrightarrow> apply_filters df s = []) \<and>
   ((\<forall>r \<in> set df. Age r < fst (age_range s) \<or> snd (age_range s) < Age r)
      \<longrightarrow> apply_filters df s = []) \<and>
   ((\<forall>r \<in> set df. Balance r < of_int (fst (balance_range s)) \<or>
                    of_int (snd (balance_range s)) < Balance r)
      \<longrightarrow> apply_filters df s = [])"
proof -
  have age: "apply_filters df s = []" if "snd (age_range s) < fst (age_range s)"
  proof (rule ccontr)
    assume "apply_filters df s \<noteq> []"
    then obtain r where "r \<in> set (apply_filters df s)"
      by (cases "apply_filters df s") auto
    from in_apply_filtersD(2,3)[OF this] that show False by simp
  qed
  have bal: "apply_filters df s = []" if "snd (balance_range s) < fst (balance_range s)"
  proof (rule ccontr)
    assume "apply_filters df s \<noteq> []"
    then obtain r where "r \<in> set (apply_filters df s)"
      by (cases "apply_filters df s") auto
    from in_apply_filtersD(4,5)[OF this]
    have "(of_int (fst (balance_range s)) :: real) \<le> of_int (snd (balance_range s))"
      by simp
    with that show False by simp
  qed
  have age_out: "apply_filters df s = []"
    if "\<forall>r \<in> set df. Age r < fst (age_range s) \<or> snd (age_range s) < Age r"
  proof (rule ccontr)
    assume "apply_filters df s \<noteq> []"
    then obtain r where "r \<in> set (apply_filters df s)"
      by (cases "apply_filters df s") auto
    from in_apply_filtersD(1,2,3)[OF this] that show False by fastforce
  qed
  have bal_out: "apply_filters df s = []"
    if "\<forall>r \<in> set df. Balance r < of_int (fst (balance_range s)) \<or>
                    of_int (snd (balance_range s)) < Balance r"
  proof (rule ccontr)
    assume "apply_filters df s \<noteq> []"
    then obtain r where "r \<in> set (apply_filters df s)"
      by (cases "apply_filters df s") auto
    from in_apply_filtersD(1,4,5)[OF this] that show False by fastforce
  qed
  from age bal age_out bal_out show ?thesis by blast
qed

text \<open>
  On the sample table: ranges with the bounds swapped (age 50 to 20, balance 90000 to
  10000) and ranges beyond every row (age 93 to 99, balance 300000 to 400000).
\<close>

theorem bad_range_gives_empty_witness:
  "snd (age_range inverted_ranges) < fst (age_range inverted_ranges) \<and>
   snd (balance_range inverted_ranges) < fst (balance_range inverted_ranges) \<and>
   apply_filters sample_table inverted_ranges = [] \<and>
   list_all (\<lambda>r. snd (age_range outside_ranges) < Age r \<or> Age r < fst (age_range outside_ranges))
     sample_table \<and>
   list_all (\<lambda>r. Balance r < of_int (fst (balance_range outside_ranges)))  sample_table \<and>
   apply_filters sample_table outside_ranges = []"
proof -
  have inv_age: "snd (age_range inverted_ranges) < fst (age_range inverted_ranges)"
    by (simp add: inverted_ranges_def)
  have inv_bal: "snd (balance_range inverted_ranges) < fst (balance_range inverted_ranges)"
    by (simp add: inverted_ranges_def)
  have out_age: "\<forall>r \<in> set sample_table.
      Age r < fst (age_range outside_ranges) \<or> snd (age_range outside_ranges) < Age r"
    by (simp add: outside_ranges_def sample_table_def)
  have out_bal: "\<forall>r \<in> set sample_table.
      Balance r < of_int (fst (balance_range outside_ranges)) \<or>
      of_int (snd (balance_range outside_ranges)) < Balance r"
    by (simp add: outside_ranges_def sample_table_def)
  have e1: "apply_filters sample_table inverted_ranges = []"
    using bad_range_gives_empty[of inverted_ranges sample_table] inv_age by blast
  have e2: "apply_filters sample_table inverted_ranges = []"
    using bad_range_gives_empty[of inverted_ranges sample_table] inv_bal by blast
  have e3: "apply_filters sample_table outside_ranges = []"
    using bad_range_gives_empty[of outside_ranges sample_table] out_age by blast
  have e4: "apply_filters sample_table outside_ranges = []"
    using bad_range_gives_empty[of outside_ranges sample_table] out_bal by blast
  have l1: "list_all (\<lambda>r. snd (age_range outside_ranges) < Age r \<or> Age r < fst (age_range outside_ranges))
     sample_table"
    by (simp add: outside_ranges_def sample_table_def)
  have l2: "list_all (\<lambda>r. Balance r < of_int (fst (balance_range outside_ranges)))  sample_table"
    by (simp add: outside_ranges_def sample_table_def)
  from inv_age inv_bal e1 e2 e3 e4 l1 l2 show ?thesis by simp
qed

section \<open>Aggregation engine: group keys and group sizes\<close>

lemma somes_filter_length:
  "length (filter (\<lambda>x. x = k) (concat (map (\<lambda>v. case v of None \<Rightarrow> [] | Some x \<Rightarrow> [x]) col)))
     = length (filter (\<lambda>v. v = Some k) col)"
  by (induction col) (auto split: option.splits)

lemma somes_set:
  "k \<in> set (concat (map (\<lambda>v. case v of None \<Rightarrow> [] | Some x \<Rightarrow> [x]) col)) \<longleftrightarrow> Some k \<in> set col"
  by (induction col) (auto split: option.splits)

lemma map_of_value_counts:
  "map_of (value_counts col) k =
     (if Some k \<in> set col then Some (Some (length (filter (\<lambda>v. v = Some k) col))) else None)"
proof -
  let ?vals = "concat (map (\<lambda>v. case v of None \<Rightarrow> [] | Some x \<Rightarrow> [x]) col)"
  have "map_of (map (\<lambda>k. (k, Some (length (filter (\<lambda>x. x = k) ?vals)))) (unique ?vals)) k
      = (if k \<in> set (unique ?vals) then Some (Some (length (filter (\<lambda>x. x = k) ?vals))) else None)"
    by (simp add: map_of_map_restrict restrict_map_def)
  then show ?thesis
    by (simp add: value_counts_def Let_def set_unique somes_set somes_filter_length)
qed

lemma fillna_reindex_value_counts:
  "fillna 0 (reindex (value_counts col) idx)
     = map (\<lambda>k. (k, Some (length (filter (\<lambda>v. v = Some k) col)))) idx"
  by (auto simp: fillna_def reindex_def map_of_value_counts filter_empty_conv)

text \<open>
  The counts shown with a chart: for every label of the index, the number of rows with
  that label. The \<^verbatim>\<open>except\<close> branch is never taken.
\<close>

lemma counts_for_eq:
  "counts_for col idx = map (\<lambda>k. (k, length (filter (\<lambda>v. v = Some k) col))) idx"
  by (simp add: counts_for_def fillna_reindex_value_counts astype_int_def list_all_iff comp_def)

lemma groupby_keys: "map fst (groupby key df) = sort (remdups (map key df))"
  by (simp add: groupby_def comp_def)

lemma series_keys [simp]:
  "map fst (times100 s) = map fst s"
  "map fst (exited_mean gs) = map fst gs"
  "map fst (fillna d s') = map fst s'"
  "map fst (reindex s'' idx) = idx"
  by (auto simp: times100_def exited_mean_def fillna_def reindex_def comp_def split: prod.splits)

lemma groupby_observed_keys:
  "map fst (groupby_observed cats key df) = filter (\<lambda>l. Some l \<in> set (map key df)) cats"
proof -
  have "(filter (\<lambda>r. key r = Some l) df \<noteq> []) = (Some l \<in> set (map key df))" for l
    by (auto simp: filter_empty_conv image_iff) metis
  then show ?thesis
    by (induction cats) (simp_all add: groupby_observed_def)
qed









lemma counts_active_eq:
  "counts_active df =
     [(''Inactive'', length (filter (\<lambda>r. \<not> IsActiveMember r) df)),
      (''Active'', length (filter IsActiveMember df))]"
proof -
  have a: "(\<lambda>r. active_label (flag (IsActiveMember r)) = Some ''Inactive'') = (\<lambda>r. \<not> IsActiveMember r)"
    by (auto simp: active_label_def flag_def)
  have b: "(\<lambda>r. active_label (flag (IsActiveMember r)) = Some ''Active'') = IsActiveMember"
    by (auto simp: active_label_def flag_def)
  show ?thesis
    by (simp add: counts_active_def counts_for_eq active_labels_def filter_map comp_def a b)
qed

lemma counts_bins_eq:
  "counts_age df = map (\<lambda>l. (l, length (filter (\<lambda>r. AgeGroup r = Some l) df))) labels"
  "counts_balance df =
     map (\<lambda>l. (l, length (filter (\<lambda>r. BalanceGroup r = Some l) df))) balance_labels"
  by (simp_all add: counts_age_def counts_balance_def counts_for_eq comp_def)



section \<open>Aggregation engine: churn rates\<close>

lemma mean_valid:
  "g \<noteq> [] \<Longrightarrow> \<exists>m. mean (map Exited g) = Some m \<and> 0 \<le> m \<and> m \<le> 1"
proof -
  assume ne: "g \<noteq> []"
  have "length (filter (\<lambda>b. b) (map Exited g)) \<le> length (map Exited g)"
    by (rule length_filter_le)
  then have "real (length (filter (\<lambda>b. b) (map Exited g))) / real (length g) \<le> 1"
    using ne by (simp add: divide_le_eq_1)
  with ne show ?thesis by (simp add: mean_def)
qed

lemma valid_rate_scaled:
  "g \<noteq> [] \<Longrightarrow> valid_rate (map_option (\<lambda>x. x * 100) (mean (map Exited g)))"
  using mean_valid[of g] by (auto simp: valid_rate_def)

lemma groupby_groups_nonempty:
  "(k, g) \<in> set (groupby key df) \<Longrightarrow> g \<noteq> []"
  by (auto simp: groupby_def filter_empty_conv)

lemma groupby_observed_nonempty:
  "(k, g) \<in> set (groupby_observed cats key df) \<Longrightarrow> g \<noteq> []"
  by (auto simp: groupby_observed_def)

lemma rates_of_groups_valid:
  assumes "\<And>k g. (k, g) \<in> set groups \<Longrightarrow> g \<noteq> []"
  shows "list_all (\<lambda>(k, v). valid_rate v) (times100 (exited_mean groups))"
  using assms
  by (auto simp: list_all_iff times100_def exited_mean_def valid_rate_scaled)

lemma map_of_exited_mean_groupby:
  "map_of (exited_mean (groupby key df)) k =
     (if k \<in> key ` set df then Some (mean (map Exited (filter (\<lambda>r. key r = k) df))) else None)"
proof -
  have "exited_mean (groupby key df) =
      map (\<lambda>k. (k, mean (map Exited (filter (\<lambda>r. key r = k) df)))) (sort (remdups (map key df)))"
    by (simp add: exited_mean_def groupby_def comp_def)
  then show ?thesis
    by (simp add: map_of_map_restrict restrict_map_def)
qed

lemma filled_rate:
  "(case (case (if k \<in> key ` set df then Some (mean (map Exited (filter (\<lambda>r. key r = k) df))) else None) of
           None \<Rightarrow> None | Some v \<Rightarrow> v) of None \<Rightarrow> Some 0 | Some x \<Rightarrow> Some x)
     = Some (group_rate (filter (\<lambda>r. key r = k) df) / 100)"
  by (auto simp: mean_def group_rate_def filter_empty_conv comp_def filter_map)

text \<open>
  The activity series in closed form: the label 0 with the rate of the inactive rows and
  the label 1 with the rate of the active rows, 0 for a group without rows.
\<close>

lemma get_active_churn_eq:
  "get_active_churn df =
     [(0, Some (group_rate (filter (\<lambda>r. \<not> IsActiveMember r) df))),
      (1, Some (group_rate (filter IsActiveMember df)))]"
proof -
  have a: "(\<lambda>r. flag (IsActiveMember r) = 0) = (\<lambda>r. \<not> IsActiveMember r)"
    by (auto simp: flag_def)
  have b: "(\<lambda>r. flag (IsActiveMember r) = 1) = IsActiveMember"
    by (auto simp: flag_def)
  show ?thesis
    unfolding get_active_churn_def reindex_def fillna_def times100_def
      map_of_exited_mean_groupby
    by (simp add: filled_rate a b)
qed

lemma churn_rate_eq:
  "churn_rate df = Inr (group_rate df)"
  by (simp add: churn_rate_def py_truediv_def total_customers_def churned_customers_def group_rate_def)

lemma group_rate_bounds: "0 \<le> group_rate g \<and> group_rate g \<le> 100"
proof (cases "g = []")
  case True
  then show ?thesis by (simp add: group_rate_def)
next
  case False
  have "length (filter Exited g) \<le> length g" by (rule length_filter_le)
  then have "real (length (filter Exited g)) / real (length g) \<le> 1"
    using False by (simp add: divide_le_eq_1)
  then have "real (length (filter Exited g)) / real (length g) * 100 \<le> 1 * 100"
    by (rule mult_right_mono) simp
  then show ?thesis using False by (simp add: group_rate_def)
qed

text \<open>
  Every value of the six churn series is a number between 0 and 100, never NaN. In the
  activity chart a label whose count is 0 has rate 0. The churn rate of the key metrics
  is computed without a division error, lies between 0 and 100 and is 0 for a table
  without rows; on the empty table the activity series holds 0 for both labels.
\<close>

lemma churn_rates_in_range:
  "list_all (\<lambda>(k, v). valid_rate v) (get_churn_by_age df) \<and>
   list_all (\<lambda>(k, v). valid_rate v) (get_churn_by_balance df) \<and>
   list_all (\<lambda>(k, v). valid_rate v) (get_geo_churn df) \<and>
   list_all (\<lambda>(k, v). valid_rate v) (get_product_churn df) \<and>
   list_all (\<lambda>(k, v). valid_rate v) (get_gender_churn df) \<and>
   list_all (\<lambda>(k, v). valid_rate v) (get_active_churn df) \<and>
   (\<forall>((k, v), (l, c)) \<in> set (zip (get_active_churn df) (counts_active df)).
      c = 0 \<longrightarrow> v = Some 0) \<and>
   (\<exists>r. churn_rate df = Inr r \<and> 0 \<le> r \<and> r \<le> 100 \<and> (total_customers df = 0 \<longrightarrow> r = 0)) \<and>
   churn_rate [] = Inr 0 \<and>
   get_active_churn [] = [(0, Some 0), (1, Some 0)]"
proof -
  have age: "list_all (\<lambda>(k, v). valid_rate v) (get_churn_by_age df)"
    unfolding get_churn_by_age_def
    by (rule rates_of_groups_valid) (rule groupby_observed_nonempty)
  have bal: "list_all (\<lambda>(k, v). valid_rate v) (get_churn_by_balance df)"
    unfolding get_churn_by_balance_def
    by (rule rates_of_groups_valid) (rule groupby_observed_nonempty)
  have geo: "list_all (\<lambda>(k, v). valid_rate v) (get_geo_churn df)"
    unfolding get_geo_churn_def
    by (rule rates_of_groups_valid) (rule groupby_groups_nonempty)
  have prod: "list_all (\<lambda>(k, v). valid_rate v) (get_product_churn df)"
    unfolding get_product_churn_def
    by (rule rates_of_groups_valid) (rule groupby_groups_nonempty)
  have gen: "list_all (\<lambda>(k, v). valid_rate v) (get_gender_churn df)"
    unfolding get_gender_churn_def
    by (rule rates_of_groups_valid) (rule groupby_groups_nonempty)
  have act: "list_all (\<lambda>(k, v). valid_rate v) (get_active_churn df)"
    by (simp add: get_active_churn_eq valid_rate_def group_rate_bounds)
  have zero: "\<forall>((k, v), (l, c)) \<in> set (zip (get_active_churn df) (counts_active df)).
      c = 0 \<longrightarrow> v = Some 0"
    by (auto simp: get_active_churn_eq counts_active_eq group_rate_def)
  have metric: "\<exists>r. churn_rate df = Inr r \<and> 0 \<le> r \<and> r \<le> 100 \<and> (total_customers df = 0 \<longrightarrow> r = 0)"
    by (simp add: churn_rate_eq group_rate_bounds) (simp add: total_customers_def group_rate_def)
  have empty: "churn_rate [] = Inr 0" "get_active_churn [] = [(0, Some 0), (1, Some 0)]"
    by (simp_all add: churn_rate_eq get_active_churn_eq group_rate_def)
  from age bal geo prod gen act zero metric empty show ?thesis by blast
qed

text \<open>An age or balance bin whose count is 0 has no entry in the churn series.\<close>

lemma empty_bin_not_in_rates:
  "(\<forall>(l, c) \<in> set (counts_age df). c = 0 \<longrightarrow> l \<notin> set (map fst (get_churn_by_age df))) \<and>
   (\<forall>(l, c) \<in> set (counts_balance df).
      c = 0 \<longrightarrow> l \<notin> set (map fst (get_churn_by_balance df)))"
proof -
  have bins_age: "\<forall>(l, c) \<in> set (counts_age df).
      c = 0 \<longrightarrow> l \<notin> set (map fst (get_churn_by_age df))"
    unfolding get_churn_by_age_def series_keys groupby_observed_keys counts_bins_eq
    by (auto simp: filter_empty_conv)
  have bins_bal: "\<forall>(l, c) \<in> set (counts_balance df).
      c = 0 \<longrightarrow> l \<notin> set (map fst (get_churn_by_balance df))"
    unfolding get_churn_by_balance_def series_keys groupby_observed_keys counts_bins_eq
    by (auto simp: filter_empty_conv)
  from bins_age bins_bal show ?thesis by blast
qed

text \<open>
  Claim C8 at a table with empty bins. No row of the sample table lies in the age bin
  18-25 or in the balance bin 150-200K: both have sample count 0, and the churn series
  have no value for them, neither 0 nor any other. The activity series, computed from
  a table without inactive rows, does report the rate 0 for the label with count 0.
\<close>

theorem empty_bin_has_no_rate:
  "(''18-25'', 0) \<in> set (counts_age sample_table) \<and>
   map_of (get_churn_by_age sample_table) ''18-25'' = None \<and>
   (''150-200K'', 0) \<in> set (counts_balance sample_table) \<and>
   map_of (get_churn_by_balance sample_table) ''150-200K'' = None \<and>
   counts_active only_active_table = [(''Inactive'', 0), (''Active'', 1)] \<and>
   get_active_churn only_active_table = [(0, Some 0), (1, Some 100)]"
proof -
  have "counts_age sample_table =
      [(''18-25'', 0), (''26-35'', 2), (''36-45'', 1), (''46-60'', 0), (''60+'', 0)]"
    by code_simp
  then have a: "(''18-25'', 0) \<in> set (counts_age sample_table)" by simp
  have "get_churn_by_age sample_table = [(''26-35'', Some 50), (''36-45'', Some 0)]"
    by code_simp
  then have b: "map_of (get_churn_by_age sample_table) ''18-25'' = None" by simp
  have "counts_balance sample_table =
      [(''0-50K'', 1), (''50-100K'', 1), (''100-150K'', 1), (''150-200K'', 0), (''200K+'', 0)]"
    by code_simp
  then have c: "(''150-200K'', 0) \<in> set (counts_balance sample_table)" by simp
  have "get_churn_by_balance sample_table =
      [(''0-50K'', Some 0), (''50-100K'', Some 100), (''100-150K'', Some 0)]"
    by code_simp
  then have d: "map_of (get_churn_by_balance sample_table) ''150-200K'' = None" by simp
  have e: "counts_active only_active_table = [(''Inactive'', 0), (''Active'', 1)]"
    by code_simp
  have f: "get_active_churn only_active_table = [(0, Some 0), (1, Some 100)]"
    by code_simp
  from a b c d e f show ?thesis by blast
qed

text \<open>
  Claim C10. For geography, gender and product count the labels of the result are
  exactly the values that occur in the table, in strictly ascending order: a value
  without rows has no entry. The activity series always has the labels 0 and 1.
\<close>

theorem observed_labels_ascending:
  "sorted_wrt (<) (map fst (get_geo_churn df)) \<and>
   set (map fst (get_geo_churn df)) = Geography ` set df \<and>
   sorted_wrt (<) (map fst (get_gender_churn df)) \<and>
   set (map fst (get_gender_churn df)) = Gender ` set df \<and>
   sorted_wrt (<) (map fst (get_product_churn df)) \<and>
   set (map fst (get_product_churn df)) = NumOfProducts ` set df \<and>
   map fst (get_active_churn df) = [0, 1]"
  by (simp add: get_geo_churn_def get_gender_churn_def get_product_churn_def
      get_active_churn_def groupby_keys strict_sorted_iff)

text \<open>
  The sample table has no row in Spain and none with three or four products; the table
  with one active member has no inactive row, and still both activity labels.
\<close>

theorem observed_labels_ascending_witness:
  "map fst (get_geo_churn sample_table) = [''France'', ''Germany''] \<and>
   map fst (get_gender_churn sample_table) = [''Female'', ''Male''] \<and>
   map fst (get_product_churn sample_table) = [1, 2] \<and>
   set (map fst (get_geo_churn sample_table)) = Geography ` set sample_table \<and>
   map fst (get_active_churn only_active_table) = [0, 1]"
proof -
  have "map fst (get_geo_churn sample_table) = [''France'', ''Germany'']" by code_simp
  moreover have "map fst (get_gender_churn sample_table) = [''Female'', ''Male'']" by code_simp
  moreover have "map fst (get_product_churn sample_table) = [1, 2]" by code_simp
  ultimately show ?thesis
    using observed_labels_ascending[of sample_table]
      observed_labels_ascending[of only_active_table]
    by simp
qed

section \<open>Aggregation engine: canonical label sets\<close>

text \<open>
  The labels of each series, for every table. The activity series has the labels 0
  (inactive) and 1 (active) in this order, its count series the labels Inactive and
  Active, and a label without rows has rate 0 and count 0. The count series of the age
  and balance charts have the five labels of the bins in their order, each with the
  number of rows of its bin. The churn series of the age and balance charts have the
  labels of the bins with at least one row.
\<close>

lemma series_labels:
  "map fst (get_active_churn df) = [0, 1] \<and>
   map fst (counts_active df) = active_labels \<and>
   (filter (\<lambda>r. \<not> IsActiveMember r) df = [] \<longrightarrow>
      get_active_churn df ! 0 = (0, Some 0) \<and> counts_active df ! 0 = (''Inactive'', 0)) \<and>
   (filter IsActiveMember df = [] \<longrightarrow>
      get_active_churn df ! 1 = (1, Some 0) \<and> counts_active df ! 1 = (''Active'', 0)) \<and>
   map fst (get_churn_by_age df) = filter (\<lambda>l. Some l \<in> set (map AgeGroup df)) labels \<and>
   map fst (get_churn_by_balance df) =
     filter (\<lambda>l. Some l \<in> set (map BalanceGroup df)) balance_labels \<and>
   counts_age df = map (\<lambda>l. (l, length (filter (\<lambda>r. AgeGroup r = Some l) df))) labels \<and>
   counts_balance df =
     map (\<lambda>l. (l, length (filter (\<lambda>r. BalanceGroup r = Some l) df))) balance_labels"
  by (simp add: get_active_churn_eq counts_active_eq active_labels_def group_rate_def
      get_churn_by_age_def get_churn_by_balance_def groupby_observed_keys
      counts_bins_eq)

text \<open>
  Claim C4 at a table with empty bins. The sample table has rows in the age bins 26-35
  and 36-45 only. The age churn series has just these two labels, and the balance churn
  series three of the five, where the claim has all five with rate 0 for the empty
  ones. The count series of the same charts do have the five labels, and the charts
  pair rates and counts by position: the bar 26-35 gets the count 0 of the bin 18-25
  and the bar 36-45 the count 2 of the bin 26-35. The activity series of a table
  without inactive rows has both labels, with rate 0 for the label without rows.
\<close>

theorem empty_bins_are_absent:
  "get_churn_by_age sample_table = [(''26-35'', Some 50), (''36-45'', Some 0)] \<and>
   map fst (get_churn_by_age sample_table) \<noteq> labels \<and>
   counts_age sample_table =
     [(''18-25'', 0), (''26-35'', 2), (''36-45'', 1), (''46-60'', 0), (''60+'', 0)] \<and>
   zip (map fst (get_churn_by_age sample_table)) (map snd (counts_age sample_table)) =
     [(''26-35'', 0), (''36-45'', 2)] \<and>
   map fst (get_churn_by_balance sample_table) = [''0-50K'', ''50-100K'', ''100-150K''] \<and>
   map fst (get_churn_by_balance sample_table) \<noteq> balance_labels \<and>
   map fst (counts_balance sample_table) = balance_labels \<and>
   get_active_churn only_active_table = [(0, Some 0), (1, Some 100)]"
proof -
  have a: "get_churn_by_age sample_table = [(''26-35'', Some 50), (''36-45'', Some 0)]"
    by code_simp
  have b: "map fst (get_churn_by_balance sample_table) = [''0-50K'', ''50-100K'', ''100-150K'']"
    by code_simp
  have c: "counts_age sample_table =
     [(''18-25'', 0), (''26-35'', 2), (''36-45'', 1), (''46-60'', 0), (''60+'', 0)]"
    by code_simp
  have d: "map fst (counts_balance sample_table) = balance_labels"
    by (simp add: counts_bins_eq comp_def)
  have e: "get_active_churn only_active_table = [(0, Some 0), (1, Some 100)]"
    by code_simp
  from a b c d e show ?thesis by (simp add: labels_def balance_labels_def)
qed

section \<open>Aggregation engine: the lowest edge of the bins\<close>

text \<open>Exactly the ages up to 18 and the balances up to 0 get no bin.\<close>

lemma age_unbinned_iff: "cut bins labels a = None \<longleftrightarrow> a \<le> 18"
  by (auto simp: bins_def labels_def)

lemma balance_unbinned_iff: "cut balance_bins balance_labels b = None \<longleftrightarrow> b \<le> 0"
  by (auto simp: balance_bins_def balance_labels_def)

text \<open>
  Claim C3 at the lowest edges: \<^verbatim>\<open>pd.cut\<close> is called without
  \<^verbatim>\<open>include_lowest=True\<close>, so the first intervals are \<open>(18, 25]\<close> and
  \<open>(0, 50000]\<close>. Age 18 and balance 0 get no bin, and a table whose only row has age 18
  and balance 0 has empty age and balance series. The ages 25 and 26 fall into the bins
  18-25 and 26-35.
\<close>

theorem lowest_edge_unbinned:
  "cut bins labels 18 = None \<and>
   cut balance_bins balance_labels 0 = None \<and>
   cut bins labels 25 = Some ''18-25'' \<and>
   cut bins labels 26 = Some ''26-35'' \<and>
   get_churn_by_age new_adult_table = [] \<and>
   get_churn_by_balance new_adult_table = [] \<and>
   map snd (counts_age new_adult_table) = [0, 0, 0, 0, 0] \<and>
   map snd (counts_balance new_adult_table) = [0, 0, 0, 0, 0]"
proof -
  have "cut bins labels 18 = None" "cut bins labels 25 = Some ''18-25''"
    "cut bins labels 26 = Some ''26-35''"
    by (simp_all add: bins_def labels_def)
  moreover have "cut balance_bins balance_labels 0 = None"
    by (simp add: balance_bins_def balance_labels_def)
  moreover have "get_churn_by_age new_adult_table = []" by code_simp
  moreover have "get_churn_by_balance new_adult_table = []" by code_simp
  moreover have "map snd (counts_age new_adult_table) = [0, 0, 0, 0, 0]" by code_simp
  moreover have "map snd (counts_balance new_adult_table) = [0, 0, 0, 0, 0]" by code_simp
  ultimately show ?thesis by simp
qed

section \<open>Filter engine: the default state\<close>

text \<open>
  Without any selection and with ranges that cover every row, the chain returns the
  table as it is.
\<close>

lemma unconstrained_identity:
  assumes "selected_geographies s = []" "genders s = []" "products_sel s = []"
    and "\<not> active_only s"
    and "\<forall>r \<in> set df. fst (age_range s) \<le> Age r \<and> Age r \<le> snd (age_range s)"
    and "\<forall>r \<in> set df. of_int (fst (balance_range s)) \<le> Balance r \<and>
           Balance r \<le> of_int (snd (balance_range s))"
  shows "apply_filters df s = df"
proof -
  have "filter_age s df = df"
    using assms(5) by (simp add: filter_age_def case_prod_unfold)
  moreover have "filter_balance s df = df"
    using assms(6) by (simp add: filter_balance_def case_prod_unfold)
  ultimately show ?thesis
    using assms(1-4)
    by (simp add: apply_filters_def filter_geography_unselected filter_gender_unselected
        filter_products_unselected filter_active_def)
qed

text \<open>
  Claim C2 at a table whose largest balance is not a whole number. The default of the
  balance slider is \<^verbatim>\<open>int(df["Balance"].max())\<close>, which cuts 250898.09 down to
  250898; the row with the largest balance then fails \<^verbatim>\<open>Balance <= max_bal_sel\<close>.
  With the sliders untouched the chain drops customer 1 and keeps customer 2 only,
  whether every checkbox is cleared or every checkbox is set.
\<close>

theorem default_ranges_drop_top_balance:
  "map CustomerId top_balance_table = [1, 2] \<and>
   default_age_range top_balance_table = Inr (30, 40) \<and>
   default_balance_range top_balance_table = Inr (0, 250898) \<and>
   map_sum id (\<lambda>s. map CustomerId (apply_filters top_balance_table s))
     (cleared_sidebar top_balance_table) = Inr [2] \<and>
   map_sum id (\<lambda>s. map CustomerId (apply_filters top_balance_table s))
     (default_sidebar top_balance_table) = Inr [2]"
proof -
  have "map CustomerId top_balance_table = [1, 2]" by (simp add: top_balance_table_def)
  moreover have "default_age_range top_balance_table = Inr (30, 40)" by code_simp
  moreover have "default_balance_range top_balance_table = Inr (0, 250898)" by code_simp
  moreover have "map_sum id (\<lambda>s. map CustomerId (apply_filters top_balance_table s))
     (cleared_sidebar top_balance_table) = Inr [2]"
    by code_simp
  moreover have "map_sum id (\<lambda>s. map CustomerId (apply_filters top_balance_table s))
     (default_sidebar top_balance_table) = Inr [2]"
    by code_simp
  ultimately show ?thesis by simp
qed

section \<open>Fallback prediction\<close>

lemma lower_France: "lower ''France'' = ''france''" by code_simp

lemma lower_Female: "lower ''Female'' = ''female''" by code_simp

lemma lower_Spain: "lower ''Spain'' = ''spain''" by code_simp

lemma lower_Germany: "lower ''Germany'' = ''germany''" by code_simp

lemma lower_Male: "lower ''Male'' = ''male''" by code_simp

lemma logistic_bounds: "0 < logistic x \<and> logistic x < 1"
proof -
  have "0 < exp (- x)" by simp
  then show ?thesis by (simp add: logistic_def add_pos_pos)
qed

lemma fallback_score_closed_form:
  "fallback_score a b n act g geo =
     closed_form_score a b n act (lower geo = ''germany'') (lower g = ''male'')"
  by (simp add: fallback_score_def closed_form_score_def)

text \<open>
  Over the reals the logistic function lies strictly between 0 and 1, so the clamp to
  \<open>[0, 1]\<close> returns its argument.
\<close>

lemma fallback_prob_logistic:
  "fallback_prob a b n act g geo = logistic (fallback_score a b n act g geo)"
  using logistic_bounds[of "fallback_score a b n act g geo"]
  by (simp add: fallback_prob_def Let_def logistic_def)

lemma logistic_half_iff: "logistic x = 1 / 2 \<longleftrightarrow> x = 0"
proof -
  have "logistic x = 1 / 2 \<longleftrightarrow> 1 + exp (- x) = 2"
  proof
    assume "logistic x = 1 / 2"
    then have "1 / (1 + exp (- x)) = 1 / 2" by (simp add: logistic_def)
    then have "inverse (1 + exp (- x)) = inverse 2" by (simp add: inverse_eq_divide)
    then show "1 + exp (- x) = 2" by (simp only: inverse_eq_iff_eq)
  next
    assume "1 + exp (- x) = 2"
    then show "logistic x = 1 / 2" by (simp add: logistic_def)
  qed
  also have "\<dots> \<longleftrightarrow> exp (- x) = 1" by auto
  also have "\<dots> \<longleftrightarrow> x = 0" by simp
  finally show ?thesis .
qed

lemma logistic_less_half: "x < 0 \<Longrightarrow> logistic x < 1 / 2"
proof -
  assume "x < 0"
  then have "1 < exp (- x)" by simp
  then have "2 < 1 + exp (- x)" by simp
  then have "1 / (1 + exp (- x)) < 1 / 2"
    by (intro divide_strict_left_mono) (simp_all add: add_pos_pos)
  then show ?thesis by (simp add: logistic_def)
qed

lemma reference_score: "fallback_score 40 50000 1 True ''Female'' ''France'' = - (1 / 10)"
  by (simp add: fallback_score_def lower_France lower_Female)

text \<open>
  Claim C5, as stated, fails: for the tuple (age 40, balance 50000, one product, active,
  Female, France) the age, balance and product terms are 0, but an active member gets
  \<open>- 0.1\<close>, so the score is not 0 and the probability is not one half.
\<close>

theorem score_of_reference_tuple_nonzero:
  "fallback_score 40 50000 1 True ''Female'' ''France'' \<noteq> 0 \<and>
   fallback_prob 40 50000 1 True ''Female'' ''France'' \<noteq> 1 / 2"
proof -
  have "logistic (- (1 / 10)) \<noteq> 1 / 2" by (simp only: logistic_half_iff)
  then show ?thesis by (simp add: fallback_prob_logistic reference_score)
qed

text \<open>
  Claim C5, amended. For that tuple the score is \<open>- 0.1\<close> and the probability is
  \<open>1 / (1 + exp 0.1)\<close>, which is below one half.
\<close>

theorem reference_tuple_score:
  "fallback_score 40 50000 1 True ''Female'' ''France'' = - (1 / 10) \<and>
   fallback_prob 40 50000 1 True ''Female'' ''France'' = 1 / (1 + exp (1 / 10)) \<and>
   fallback_prob 40 50000 1 True ''Female'' ''France'' < 1 / 2"
proof -
  have "fallback_prob 40 50000 1 True ''Female'' ''France'' = logistic (- (1 / 10))"
    by (simp add: fallback_prob_logistic reference_score)
  moreover have "logistic (- (1 / 10)) < 1 / 2" by (rule logistic_less_half) simp
  moreover have "logistic (- (1 / 10)) = 1 / (1 + exp (1 / 10))" by (simp add: logistic_def)
  ultimately show ?thesis by (simp add: reference_score)
qed

text \<open>
  The script tests the labels after \<^verbatim>\<open>lower()\<close>; on the labels of the dataset this
  is the test for \<^verbatim>\<open>Germany\<close> and for \<^verbatim>\<open>Male\<close>.
\<close>

lemma label_tests:
  assumes "pred_gender \<in> set gender_options" and "pred_geo \<in> set geography_options"
  shows "(lower pred_geo = ''germany'') = (pred_geo = ''Germany'')"
    and "(lower pred_gender = ''male'') = (pred_gender = ''Male'')"
  using assms
  by (auto simp: gender_options_def geography_options_def lower_France lower_Germany
      lower_Spain lower_Male lower_Female)

text \<open>
  Claim C6. For every age, balance, product count and activity flag, and every gender
  and geography label of the dataset, the fallback prediction is the closed form with
  the stated coefficients, \<open>(age - 40) * 0.02 + (balance - 50000) / 200000 +
  (num_products - 1) * 0.15\<close>, plus 0.4 if inactive else minus 0.1, plus 0.1 for
  Germany, plus 0.05 for Male, passed through the logistic function and clamped to
  \<open>[0, 1]\<close>; the prediction lies between 0 and 1.
\<close>

theorem fallback_is_closed_form:
  "pred_gender \<in> set gender_options \<Longrightarrow> pred_geo \<in> set geography_options \<Longrightarrow>
   fallback_prob pred_age pred_balance pred_products pred_active pred_gender pred_geo =
     stated_prob pred_age pred_balance pred_products pred_active pred_gender pred_geo \<and>
   fallback_prob pred_age pred_balance pred_products pred_active pred_gender pred_geo =
     max 0 (min 1 (1 / (1 + exp (- ((of_int pred_age - 40) * 0.02
       + (pred_balance - 50000) / 200000
       + (of_int pred_products - 1) * 0.15
       + (if pred_active then - 0.1 else 0.4)
       + (if pred_geo = ''Germany'' then 0.1 else 0)
       + (if pred_gender = ''Male'' then 0.05 else 0)))))) \<and>
   0 \<le> fallback_prob pred_age pred_balance pred_products pred_active pred_gender pred_geo \<and>
   fallback_prob pred_age pred_balance pred_products pred_active pred_gender pred_geo \<le> 1"
proof -
  assume g: "pred_gender \<in> set gender_options" and geo: "pred_geo \<in> set geography_options"
  let ?p = "fallback_prob pred_age pred_balance pred_products pred_active pred_gender pred_geo"
  have score: "fallback_score pred_age pred_balance pred_products pred_active pred_gender pred_geo =
      closed_form_score pred_age pred_balance pred_products pred_active
        (pred_geo = ''Germany'') (pred_gender = ''Male'')"
    by (simp only: fallback_score_closed_form label_tests[OF g geo])
  have eq: "?p = stated_prob pred_age pred_balance pred_products pred_active pred_gender pred_geo"
    by (simp add: fallback_prob_def Let_def stated_prob_def logistic_def score)
  have form: "stated_prob pred_age pred_balance pred_products pred_active pred_gender pred_geo =
     max 0 (min 1 (1 / (1 + exp (- ((of_int pred_age - 40) * 0.02
       + (pred_balance - 50000) / 200000
       + (of_int pred_products - 1) * 0.15
       + (if pred_active then - 0.1 else 0.4)
       + (if pred_geo = ''Germany'' then 0.1 else 0)
       + (if pred_gender = ''Male'' then 0.05 else 0))))))"
    by (simp only: stated_prob_def logistic_def closed_form_score_def)
  have bounds: "0 \<le> ?p \<and> ?p \<le> 1"
    by (simp add: fallback_prob_def Let_def)
  from eq form bounds show ?thesis by simp
qed

text \<open>An inactive male customer of 50 in Germany with two products and a balance of 120000.\<close>

theorem fallback_is_closed_form_witness:
  "''Male'' \<in> set gender_options \<and> ''Germany'' \<in> set geography_options \<and>
   fallback_prob 50 120000 2 False ''Male'' ''Germany'' =
     stated_prob 50 120000 2 False ''Male'' ''Germany'' \<and>
   fallback_prob 50 120000 2 False ''Male'' ''Germany'' = max 0 (min 1 (1 / (1 + exp (- (5 / 4)))))"
proof -
  have g: "''Male'' \<in> set gender_options" by (simp add: gender_options_def)
  have geo: "''Germany'' \<in> set geography_options" by (simp add: geography_options_def)
  from fallback_is_closed_form[OF g geo, of 50 120000 2 False] g geo
  show ?thesis by simp
qed

end
